theory Spec2Isabelle
  imports Complex_Main "HOL-Library.Char_ord" "HOL-Library.List_Lexorder"
begin

section \<open>Errors\<close>

text \<open>
  The exceptions that \<^verbatim>\<open>bin/integrate_anndata.py\<close> and the library calls it makes
  can raise, by their Python names. The specification calls the failed
  \<^verbatim>\<open>assert\<close> of \<^verbatim>\<open>concat_matrices\<close> a ShapeMismatchError and the failure of
  \<^verbatim>\<open>astype(int)\<close> a FormatError. \<open>NoSuchObject\<close> is not a Python exception: it
  is the answer of the model to a reference that names no object of the heap,
  which Python cannot build.
\<close>

datatype error =
    AssertionError
  | ValueError
  | OverflowError
  | KeyError
  | IndexError
  | TypeError
  | AttributeError
  | OSError
  | InvalidIndexError
  | NoSuchObject

section \<open>Python strings and integers\<close>

text \<open>\<^verbatim>\<open>s.startswith(p)\<close>, \<^verbatim>\<open>s.endswith(p)\<close>, \<^verbatim>\<open>s.split(sep)\<close> for a
  one-character separator, and \<^verbatim>\<open>a or b\<close> on an optional string (both
  \<^verbatim>\<open>None\<close> and the empty string are falsy).\<close>

definition startswith :: "string \<Rightarrow> string \<Rightarrow> bool" where
  "startswith s p = (take (length p) s = p)"

definition endswith :: "string \<Rightarrow> string \<Rightarrow> bool" where
  "endswith s p = (length p \<le> length s \<and> drop (length s - length p) s = p)"

fun split_on :: "char \<Rightarrow> string \<Rightarrow> string list" where
  "split_on sep [] = [[]]"
| "split_on sep (c # cs) =
     (if c = sep then [] # split_on sep cs
      else (case split_on sep cs of
              [] \<Rightarrow> [[c]]
            | w # ws \<Rightarrow> (c # w) # ws))"

definition py_or :: "string option \<Rightarrow> string \<Rightarrow> string" where
  "py_or a b = (case a of None \<Rightarrow> b | Some s \<Rightarrow> if s = [] then b else s)"

text \<open>\<^verbatim>\<open>os.path.splitext(os.path.basename(path))[0]\<close>: the part after the last
  slash, without its extension. The extension starts at the last dot, unless only
  dots stand before that dot.\<close>

definition basename :: "string \<Rightarrow> string" where
  "basename p = rev (takeWhile (\<lambda>c. c \<noteq> CHR ''/'') (rev p))"

definition splitext_root :: "string \<Rightarrow> string" where
  "splitext_root name =
     (case dropWhile (\<lambda>c. c \<noteq> CHR ''.'') (rev name) of
        [] \<Rightarrow> name
      | d # r \<Rightarrow> if list_all (\<lambda>c. c = CHR ''.'') r then name else rev r)"

definition stem :: "string \<Rightarrow> string" where
  "stem p = splitext_root (basename p)"

text \<open>
  \<^verbatim>\<open>int(s)\<close> on a string, as \<^verbatim>\<open>Index.astype(int)\<close> applies it to every label:
  white space is stripped at both ends, one sign may follow, then decimal digits,
  where single underscores may stand between digits. Characters are bytes here, so
  the digits and white space of Unicode beyond ASCII are outside the model.
\<close>

definition py_isspace :: "char \<Rightarrow> bool" where
  "py_isspace c = ((of_char c :: nat) \<in> {9, 10, 11, 12, 13, 28, 29, 30, 31, 32})"

definition is_digit :: "char \<Rightarrow> bool" where
  "is_digit c = (48 \<le> (of_char c :: nat) \<and> (of_char c :: nat) \<le> 57)"

definition digit_val :: "char \<Rightarrow> int" where
  "digit_val c = int (of_char c) - 48"

definition strip :: "string \<Rightarrow> string" where
  "strip s = rev (dropWhile py_isspace (rev (dropWhile py_isspace s)))"

fun digits_ok :: "string \<Rightarrow> bool" where
  "digits_ok [] = False"
| "digits_ok [c] = is_digit c"
| "digits_ok (c # d # cs) =
     (if is_digit c then digits_ok (d # cs)
      else c = CHR ''_'' \<and> is_digit d \<and> digits_ok (d # cs))"

definition digits_value :: "string \<Rightarrow> int" where
  "digits_value s = foldl (\<lambda>a c. 10 * a + digit_val c) 0 (filter is_digit s)"

definition parse_unsigned :: "string \<Rightarrow> int option" where
  "parse_unsigned s =
     (if s \<noteq> [] \<and> is_digit (hd s) \<and> digits_ok s then Some (digits_value s) else None)"

definition py_int :: "string \<Rightarrow> int option" where
  "py_int s =
     (case strip s of
        [] \<Rightarrow> None
      | c # cs \<Rightarrow>
          if c = CHR ''-'' then map_option uminus (parse_unsigned cs)
          else if c = CHR ''+'' then parse_unsigned cs
          else parse_unsigned (c # cs))"

text \<open>\<^verbatim>\<open>str(n)\<close> on an integer: decimal digits, with a minus sign when negative.\<close>

definition digit_char :: "nat \<Rightarrow> char" where
  "digit_char d = ''0123456789'' ! (d mod 10)"

fun nat_digits :: "nat \<Rightarrow> string" where
  "nat_digits n =
     (if n < 10 then [digit_char n]
      else nat_digits (n div 10) @ [digit_char (n mod 10)])"

definition py_str :: "int \<Rightarrow> string" where
  "py_str n = (if n < 0 then CHR ''-'' # nat_digits (nat (- n)) else nat_digits (nat n))"

section \<open>Integer labels: \<^verbatim>\<open>(index.astype(int) + offset).astype(str)\<close>\<close>

text \<open>
  \<^verbatim>\<open>astype(int)\<close> makes an array of 64-bit signed integers. Label by label, in
  order, a label that \<^verbatim>\<open>int\<close> rejects raises ValueError and a value outside the
  64-bit range raises OverflowError. Adding the offset is 64-bit addition, which
  wraps around silently; an offset that is itself outside the 64-bit range is
  refused with OverflowError (NumPy 2; NumPy 1 would leave the 64-bit type).
\<close>

definition in_int64 :: "int \<Rightarrow> bool" where
  "in_int64 v = (- (2 ^ 63) \<le> v \<and> v < 2 ^ 63)"

definition wrap64 :: "int \<Rightarrow> int" where
  "wrap64 v = (v + 2 ^ 63) mod 2 ^ 64 - 2 ^ 63"

fun astype_int :: "string list \<Rightarrow> error + int list" where
  "astype_int [] = Inr []"
| "astype_int (s # ss) =
     (case py_int s of
        None \<Rightarrow> Inl ValueError
      | Some v \<Rightarrow>
          if \<not> in_int64 v then Inl OverflowError
          else (case astype_int ss of Inl e \<Rightarrow> Inl e | Inr vs \<Rightarrow> Inr (v # vs)))"

definition add_offset :: "int list \<Rightarrow> int \<Rightarrow> error + int list" where
  "add_offset vs offset =
     (if \<not> in_int64 offset then Inl OverflowError
      else Inr (map (\<lambda>v. wrap64 (v + offset)) vs))"

definition reindex_index :: "string list \<Rightarrow> int \<Rightarrow> error + string list" where
  "reindex_index ids offset =
     (case astype_int ids of
        Inl e \<Rightarrow> Inl e
      | Inr vs \<Rightarrow>
          (case add_offset vs offset of
             Inl e \<Rightarrow> Inl e
           | Inr ws \<Rightarrow> Inr (map py_str ws)))"

section \<open>The data model\<close>

text \<open>
  A pandas table is an index of labels and named columns, in order. The columns of
  \<^verbatim>\<open>var\<close> are of bool dtype (\<open>BoolCol\<close>, which has no missing value) or of another
  dtype, given by their cells, where \<open>NaN\<close> is the missing value. The columns of
  \<^verbatim>\<open>obs\<close> are label columns: categorical, with their categories in order, or of
  strings; a missing label is \<open>None\<close>. Numeric columns of \<^verbatim>\<open>obs\<close> are outside the
  model.
\<close>

datatype cell = CBool bool | CNum real | CStr string | NaN

datatype column = BoolCol "bool list" | OtherCol "cell list"

datatype series = Categorical "string list" "string option list" | Object "string option list"

record 'c table =
  index :: "string list"
  columns :: "(string \<times> 'c) list"

fun cells_of :: "column \<Rightarrow> cell list" where
  "cells_of (BoolCol bs) = map CBool bs"
| "cells_of (OtherCol cs) = cs"

fun labels_of :: "series \<Rightarrow> string option list" where
  "labels_of (Categorical cats vs) = vs"
| "labels_of (Object vs) = vs"

text \<open>
  A two-dimensional array is its rows and its number of columns (which the rows
  do not give when there is none). The matrix \<^verbatim>\<open>X\<close> also has a storage: a NumPy
  array or one of SciPy's sparse classes. Entries are numbers; the floating-point
  dtype is not modelled, the program only copies them. A table of numbers
  (\<^verbatim>\<open>ext_df\<close>) has row labels, column labels, the name of its column index and its
  values. An entry of \<^verbatim>\<open>obsm\<close> is such a table or a bare array.
\<close>

record matrix =
  n_cols :: nat
  rows :: "real list list"

definition nrows :: "matrix \<Rightarrow> nat" where
  "nrows m = length (rows m)"

datatype storage = Dense | CSR | CSC | COO

record numframe =
  df_index :: "string list"
  df_columns :: "string list"
  df_columns_name :: "string option"
  df_values :: matrix

datatype annot = Frame numframe | Array matrix

record anndata =
  X :: "(storage \<times> matrix) option"
  obs :: "series table"
  var :: "column table"
  obsm :: "(string \<times> annot) list"
  uns :: "(string \<times> string) list"

definition n_obs :: "anndata \<Rightarrow> nat" where
  "n_obs adata = length (index (obs adata))"

definition n_vars :: "anndata \<Rightarrow> nat" where
  "n_vars adata = length (index (var adata))"

text \<open>\<^verbatim>\<open>ext_df.shape[0]\<close>, for a table and for an array.\<close>

fun shape0 :: "annot \<Rightarrow> nat" where
  "shape0 (Frame df) = length (df_index df)"
| "shape0 (Array m) = nrows m"

text \<open>
  What pandas and anndata keep true of their objects: every column is as long as
  the index, column names are distinct, every row of an array has the array's
  number of columns, and the shapes of the parts of a dataset agree.
\<close>

definition wf_matrix :: "matrix \<Rightarrow> bool" where
  "wf_matrix m = list_all (\<lambda>r. length r = n_cols m) (rows m)"

definition wf_var :: "column table \<Rightarrow> bool" where
  "wf_var t = (distinct (map fst (columns t)) \<and>
     list_all (\<lambda>kc. length (cells_of (snd kc)) = length (index t)) (columns t))"

definition wf_obs :: "series table \<Rightarrow> bool" where
  "wf_obs t = (distinct (map fst (columns t)) \<and>
     list_all (\<lambda>kc. length (labels_of (snd kc)) = length (index t)) (columns t))"

definition wf_numframe :: "numframe \<Rightarrow> bool" where
  "wf_numframe df = (wf_matrix (df_values df) \<and>
     nrows (df_values df) = length (df_index df) \<and>
     n_cols (df_values df) = length (df_columns df))"

fun wf_annot :: "annot \<Rightarrow> bool" where
  "wf_annot (Frame df) = wf_numframe df"
| "wf_annot (Array m) = wf_matrix m"

definition wf_anndata :: "anndata \<Rightarrow> bool" where
  "wf_anndata adata = (wf_obs (obs adata) \<and> wf_var (var adata) \<and>
     (case X adata of
        None \<Rightarrow> True
      | Some (fmt, m) \<Rightarrow> wf_matrix m \<and> nrows m = n_obs adata \<and> n_cols m = n_vars adata) \<and>
     list_all (\<lambda>ka. wf_annot (snd ka) \<and> shape0 (snd ka) = n_obs adata) (obsm adata))"

section \<open>The pandas, NumPy, SciPy and anndata operations the program calls\<close>

text \<open>\<^verbatim>\<open>df[name] = col\<close>: the column is replaced where it stands, or added last.
  \<^verbatim>\<open>df.assign(name=True)\<close> sets a bool column that is true in every row.\<close>

definition set_column :: "'c table \<Rightarrow> string \<Rightarrow> 'c \<Rightarrow> 'c table" where
  "set_column t name c =
     (if name \<in> set (map fst (columns t))
      then t\<lparr>columns := map (\<lambda>kc. if fst kc = name then (name, c) else kc) (columns t)\<rparr>
      else t\<lparr>columns := columns t @ [(name, c)]\<rparr>)"

definition assign_True :: "column table \<Rightarrow> string \<Rightarrow> column table" where
  "assign_True t name = set_column t name (BoolCol (replicate (length (index t)) True))"

text \<open>
  \<^verbatim>\<open>pd.concat([a, b])\<close>: the rows of \<open>a\<close>, then those of \<open>b\<close>. The columns are those
  of \<open>a\<close>, then those only \<open>b\<close> has. A table that lacks a column gets missing values
  there, and a bool column that meets missing values or another dtype is no longer
  of bool dtype.
\<close>

fun concat_col :: "nat \<Rightarrow> nat \<Rightarrow> column option \<Rightarrow> column option \<Rightarrow> column" where
  "concat_col na nb (Some (BoolCol x)) (Some (BoolCol y)) = BoolCol (x @ y)"
| "concat_col na nb (Some x) (Some y) = OtherCol (cells_of x @ cells_of y)"
| "concat_col na nb (Some x) None = OtherCol (cells_of x @ replicate nb NaN)"
| "concat_col na nb None (Some y) = OtherCol (replicate na NaN @ cells_of y)"
| "concat_col na nb None None = OtherCol (replicate (na + nb) NaN)"

definition pd_concat :: "column table \<Rightarrow> column table \<Rightarrow> column table" where
  "pd_concat a b =
     \<lparr>index = index a @ index b,
      columns =
        map (\<lambda>k. (k, concat_col (length (index a)) (length (index b))
                       (map_of (columns a) k) (map_of (columns b) k)))
          (map fst (columns a) @
           filter (\<lambda>k. k \<notin> set (map fst (columns a))) (map fst (columns b)))\<rparr>"

text \<open>
  \<^verbatim>\<open>col.fillna(False)\<close>: every missing value becomes \<^verbatim>\<open>False\<close>; a column that then
  holds booleans only is of bool dtype again (pandas 1 and 2).
\<close>

fun fill_cell :: "cell \<Rightarrow> cell" where
  "fill_cell NaN = CBool False"
| "fill_cell c = c"

fun is_CBool :: "cell \<Rightarrow> bool" where
  "is_CBool (CBool b) = True"
| "is_CBool c = False"

fun bool_of :: "cell \<Rightarrow> bool" where
  "bool_of (CBool b) = b"
| "bool_of c = False"

fun fillna_False :: "column \<Rightarrow> column" where
  "fillna_False (BoolCol bs) = BoolCol bs"
| "fillna_False (OtherCol cs) =
     (if list_all is_CBool (map fill_cell cs) then BoolCol (map bool_of (map fill_cell cs))
      else OtherCol (map fill_cell cs))"

text \<open>\<^verbatim>\<open>t[name] = t[name].fillna(False)\<close>; reading a column the table lacks raises
  KeyError.\<close>

definition fillna_column :: "column table \<Rightarrow> string \<Rightarrow> error + column table" where
  "fillna_column t name =
     (case map_of (columns t) name of
        None \<Rightarrow> Inl KeyError
      | Some c \<Rightarrow> Inr (set_column t name (fillna_False c)))"

fun fillna_columns :: "column table \<Rightarrow> string list \<Rightarrow> error + column table" where
  "fillna_columns t [] = Inr t"
| "fillna_columns t (name # names) =
     (case fillna_column t name of
        Inl e \<Rightarrow> Inl e
      | Inr t' \<Rightarrow> fillna_columns t' names)"

text \<open>
  \<^verbatim>\<open>pd.get_dummies(col, dtype="float32")\<close>: one 0/1 column for each level, where the
  levels of a categorical column are its categories, in their order, and those of
  a column of strings are its distinct labels, sorted. A row with a missing label
  is 0 everywhere.
\<close>

fun levels :: "series \<Rightarrow> string list" where
  "levels (Categorical cats vs) = cats"
| "levels (Object vs) = sort (remdups (concat (map (\<lambda>v. case v of None \<Rightarrow> [] | Some l \<Rightarrow> [l]) vs)))"

definition get_dummies :: "string list \<Rightarrow> series \<Rightarrow> numframe" where
  "get_dummies idx col =
     \<lparr>df_index = idx,
      df_columns = levels col,
      df_columns_name = None,
      df_values =
        \<lparr>n_cols = length (levels col),
         rows = map (\<lambda>v. map (\<lambda>l. if v = Some l then 1 else 0) (levels col)) (labels_of col)\<rparr>\<rparr>"

text \<open>
  \<^verbatim>\<open>np.hstack((a, b))\<close> and \<^verbatim>\<open>scipy.sparse.hstack((a, b))\<close>: the columns of \<open>a\<close>, then
  those of \<open>b\<close>, row by row; ValueError when the numbers of rows differ. SciPy
  keeps the class of two CSR or two CSC blocks and answers in COO otherwise.
\<close>

definition hstack :: "matrix \<Rightarrow> matrix \<Rightarrow> error + matrix" where
  "hstack a b =
     (if nrows a \<noteq> nrows b then Inl ValueError
      else Inr \<lparr>n_cols = n_cols a + n_cols b, rows = map2 (@) (rows a) (rows b)\<rparr>)"

text \<open>
  \<^verbatim>\<open>ad.AnnData(X, obs=, var=, obsm=, uns=)\<close> refuses with ValueError a matrix whose
  shape is not (rows of \<^verbatim>\<open>obs\<close>, rows of \<^verbatim>\<open>var\<close>) and an entry of \<^verbatim>\<open>obsm\<close> whose
  number of rows is not that of \<^verbatim>\<open>obs\<close>.
\<close>

definition AnnData ::
  "(storage \<times> matrix) option \<Rightarrow> series table \<Rightarrow> column table \<Rightarrow> (string \<times> annot) list \<Rightarrow>
   (string \<times> string) list \<Rightarrow> error + anndata" where
  "AnnData x ob va om un =
     (if (case x of
            None \<Rightarrow> False
          | Some (fmt, m) \<Rightarrow> nrows m \<noteq> length (index ob) \<or> n_cols m \<noteq> length (index va))
      then Inl ValueError
      else if list_ex (\<lambda>ka. shape0 (snd ka) \<noteq> length (index ob)) om then Inl ValueError
      else Inr \<lparr>X = x, obs = ob, var = va, obsm = om, uns = un\<rparr>)"

section \<open>\<^verbatim>\<open>concat_matrices\<close>\<close>

text \<open>
  \<^verbatim>\<open>ext_df.columns.to_frame(obs_feature_name).drop(columns=0).assign(**{new_features_bool: True})\<close>.
  The first parameter of \<^verbatim>\<open>Index.to_frame\<close> is the flag \<^verbatim>\<open>index\<close>, so the string
  passed is read as a truth value: non-empty, the new table is indexed by the
  column labels; empty, by 0, 1, ... (which anndata turns into strings). Its only
  column is named by the name of the column index, or 0 when there is none, and
  \<^verbatim>\<open>drop(columns=0)\<close> raises KeyError unless it is 0.
\<close>

definition new_features_frame :: "numframe \<Rightarrow> string \<Rightarrow> string \<Rightarrow> error + column table" where
  "new_features_frame ext_df obs_feature_name new_features_bool =
     (case df_columns_name ext_df of
        Some name \<Rightarrow> Inl KeyError
      | None \<Rightarrow>
          Inr (assign_True
                 \<lparr>index =
                    (if obs_feature_name = [] then map (\<lambda>i. py_str (int i)) [0 ..< length (df_columns ext_df)]
                     else df_columns ext_df),
                  columns = []\<rparr>
                 new_features_bool))"

text \<open>The names of the columns of bool dtype:
  \<^verbatim>\<open>[col for col in adata.var_keys() if adata.var[col].dtype == bool]\<close>.\<close>

fun is_bool_dtype :: "column \<Rightarrow> bool" where
  "is_bool_dtype (BoolCol bs) = True"
| "is_bool_dtype (OtherCol cs) = False"

definition bool_var_keys :: "anndata \<Rightarrow> string list" where
  "bool_var_keys adata = map fst (filter (\<lambda>kc. is_bool_dtype (snd kc)) (columns (var adata)))"

text \<open>
  The body of \<^verbatim>\<open>concat_matrices\<close>, in the order Python evaluates it: the assertion;
  the three names (\<open>flag_name\<close> is \<^verbatim>\<open>"is_{}".format\<close>); the stacked matrix (the sparse branch for every sparse class,
  with the values of \<^verbatim>\<open>ext_df\<close> in CSR when \<^verbatim>\<open>X\<close> is CSR and in CSC otherwise; a
  bare array has no \<^verbatim>\<open>values\<close>, and a dataset without \<^verbatim>\<open>X\<close> gives
  \<^verbatim>\<open>np.hstack\<close> arrays it cannot stack); the stacked \<^verbatim>\<open>var\<close>; the new dataset; then
  the three rounds of \<^verbatim>\<open>fillna(False)\<close> on the new dataset's \<^verbatim>\<open>var\<close>.
\<close>

definition flag_name :: "string \<Rightarrow> string" where
  "flag_name name = ''is_'' @ name"

definition hstack_storage :: "storage \<Rightarrow> storage" where
  "hstack_storage fmt = (if fmt = CSR then CSR else if fmt = CSC then CSC else COO)"

definition concat_matrices ::
  "anndata \<Rightarrow> annot \<Rightarrow> string \<Rightarrow> string \<Rightarrow> string option \<Rightarrow> error + anndata" where
  "concat_matrices adata ext_df obs_key feature_name obs_feature_name =
     (if n_obs adata \<noteq> shape0 ext_df then Inl AssertionError
      else
        let obs_feature_name' = py_or obs_feature_name obs_key;
            prev_features_bool = flag_name feature_name;
            new_features_bool = flag_name obs_feature_name'
        in
          (case ext_df of
             Array m \<Rightarrow> Inl AttributeError
           | Frame df \<Rightarrow>
               (case (case X adata of
                        None \<Rightarrow> Inl ValueError
                      | Some (fmt, m) \<Rightarrow>
                          if fmt \<noteq> Dense
                          then map_sum id (Pair (hstack_storage fmt)) (hstack m (df_values df))
                          else map_sum id (Pair Dense) (hstack m (df_values df))) of
                  Inl e \<Rightarrow> Inl e
                | Inr x \<Rightarrow>
                    (case new_features_frame df obs_feature_name' new_features_bool of
                       Inl e \<Rightarrow> Inl e
                     | Inr new_rows \<Rightarrow>
                         (case AnnData (Some x) (obs adata)
                                 (pd_concat (assign_True (var adata) prev_features_bool) new_rows)
                                 (obsm adata) (uns adata) of
                            Inl e \<Rightarrow> Inl e
                          | Inr adata_concat \<Rightarrow>
                              (case fillna_columns (var adata_concat)
                                      (prev_features_bool # new_features_bool # bool_var_keys adata) of
                                 Inl e \<Rightarrow> Inl e
                               | Inr v \<Rightarrow> Inr (adata_concat\<lparr>var := v\<rparr>)))))))"

section \<open>The three sources of annotation\<close>

text \<open>
  Each of the three functions is modelled on a dataset in memory (the branch
  \<^verbatim>\<open>isinstance(data, ad.AnnData)\<close>), which is how \<^verbatim>\<open>concat_features\<close> calls them.
  The parameters \<^verbatim>\<open>obs\<close> and \<^verbatim>\<open>obsm\<close> are named \<open>obs_key\<close> and \<open>obsm_key\<close> here,
  since \<open>obs\<close> and \<open>obsm\<close> are the fields of the dataset.
\<close>

definition concat_matrix_from_obs ::
  "anndata \<Rightarrow> string \<Rightarrow> string \<Rightarrow> string option \<Rightarrow> error + anndata" where
  "concat_matrix_from_obs adata obs_key feature_name obs_feature_name =
     (case map_of (columns (obs adata)) obs_key of
        None \<Rightarrow> Inl KeyError
      | Some col \<Rightarrow>
          concat_matrices adata (Frame (get_dummies (index (obs adata)) col))
            obs_key feature_name obs_feature_name)"

definition concat_matrix_from_obsm ::
  "anndata \<Rightarrow> string \<Rightarrow> string \<Rightarrow> string option \<Rightarrow> error + anndata" where
  "concat_matrix_from_obsm adata obsm_key feature_name obsm_feature_name =
     (case map_of (obsm adata) obsm_key of
        None \<Rightarrow> Inl KeyError
      | Some ext \<Rightarrow> concat_matrices adata ext ''celltype'' feature_name obsm_feature_name)"

text \<open>
  The companion file. The file system maps the path of a regular file to what
  \<^verbatim>\<open>h5py\<close> finds in it: the groups \<^verbatim>\<open>obs\<close>, \<^verbatim>\<open>var\<close> and \<^verbatim>\<open>obsm\<close> of an HDF5
  file, each of which may be absent, or no HDF5 content at all. A group that is
  absent is passed to \<^verbatim>\<open>ad.AnnData\<close> as \<^verbatim>\<open>None\<close>, which stands for an empty table
  or no entries.
\<close>

record h5ad_file =
  h5_obs :: "series table option"
  h5_var :: "column table option"
  h5_obsm :: "(string \<times> annot) list option"

datatype fs_file = H5ad h5ad_file | OtherFile

definition read_c2l :: "h5ad_file \<Rightarrow> error + anndata" where
  "read_c2l f =
     AnnData None
       (case h5_obs f of None \<Rightarrow> \<lparr>index = [], columns = []\<rparr> | Some t \<Rightarrow> t)
       (case h5_var f of None \<Rightarrow> \<lparr>index = [], columns = []\<rparr> | Some t \<Rightarrow> t)
       (case h5_obsm f of None \<Rightarrow> [] | Some m \<Rightarrow> m)
       []"

text \<open>
  The argument \<^verbatim>\<open>sample\<close>: \<^verbatim>\<open>None\<close>, a tuple or list of strings, or one string.
  \<^verbatim>\<open>if sample:\<close> holds for a non-empty tuple and a non-empty string;
  \<^verbatim>\<open>sample[i]\<close> is the i-th element of a tuple and the i-th character of a
  string, as a string of length one, and raises IndexError beyond the end.
\<close>

datatype sample = SNone | STuple "string list" | SStr string

fun truthy :: "sample \<Rightarrow> bool" where
  "truthy SNone = False"
| "truthy (STuple xs) = (xs \<noteq> [])"
| "truthy (SStr s) = (s \<noteq> [])"

fun sample_item :: "sample \<Rightarrow> nat \<Rightarrow> error + string" where
  "sample_item SNone i = Inl TypeError"
| "sample_item (STuple xs) i = (if i < length xs then Inr (xs ! i) else Inl IndexError)"
| "sample_item (SStr s) i = (if i < length s then Inr [s ! i] else Inl IndexError)"

text \<open>\<^verbatim>\<open>adata[mask]\<close>: the rows of \<^verbatim>\<open>obs\<close>, of \<^verbatim>\<open>X\<close> and of every entry of
  \<^verbatim>\<open>obsm\<close> where the boolean mask \<open>keep\<close> is true, in their order.\<close>

definition select :: "bool list \<Rightarrow> 'a list \<Rightarrow> 'a list" where
  "select keep xs = map snd (filter fst (zip keep xs))"

fun select_series :: "bool list \<Rightarrow> series \<Rightarrow> series" where
  "select_series keep (Categorical cats vs) = Categorical cats (select keep vs)"
| "select_series keep (Object vs) = Object (select keep vs)"

definition select_matrix :: "bool list \<Rightarrow> matrix \<Rightarrow> matrix" where
  "select_matrix keep m = m\<lparr>rows := select keep (rows m)\<rparr>"

fun select_annot :: "bool list \<Rightarrow> annot \<Rightarrow> annot" where
  "select_annot keep (Frame df) =
     Frame (df\<lparr>df_index := select keep (df_index df),
               df_values := select_matrix keep (df_values df)\<rparr>)"
| "select_annot keep (Array m) = Array (select_matrix keep m)"

definition select_obs :: "anndata \<Rightarrow> bool list \<Rightarrow> anndata" where
  "select_obs adata keep =
     adata\<lparr>X := map_option (\<lambda>x. (fst x, select_matrix keep (snd x))) (X adata),
           obs := \<lparr>index = select keep (index (obs adata)),
                   columns = map (\<lambda>kc. (fst kc, select_series keep (snd kc))) (columns (obs adata))\<rparr>,
           obsm := map (\<lambda>ka. (fst ka, select_annot keep (snd ka))) (obsm adata)\<rparr>"

text \<open>\<^verbatim>\<open>c2l_adata[c2l_adata.obs[sample[0]] == sample[1]]\<close>: the rows whose label in
  the column \<^verbatim>\<open>sample[0]\<close> is \<^verbatim>\<open>sample[1]\<close>; a missing label equals nothing.\<close>

definition filter_sample :: "anndata \<Rightarrow> sample \<Rightarrow> error + anndata" where
  "filter_sample c2l_adata smp =
     (case sample_item smp 0 of
        Inl e \<Rightarrow> Inl e
      | Inr key \<Rightarrow>
          (case map_of (columns (obs c2l_adata)) key of
             None \<Rightarrow> Inl KeyError
           | Some col \<Rightarrow>
               (case sample_item smp 1 of
                  Inl e \<Rightarrow> Inl e
                | Inr v \<Rightarrow> Inr (select_obs c2l_adata (map (\<lambda>l. l = Some v) (labels_of col))))))"

text \<open>\<^verbatim>\<open>s.replace(pat, "")\<close>: every occurrence of \<open>pat\<close>, from the left, is removed.
  \<^verbatim>\<open>q.split("_")[0]\<close> is the part of \<open>q\<close> before its first underscore.\<close>

definition first_field :: "string \<Rightarrow> string" where
  "first_field q = (case split_on CHR ''_'' q of [] \<Rightarrow> [] | w # ws \<Rightarrow> w)"

function replace_all :: "string \<Rightarrow> string \<Rightarrow> string" where
  "replace_all pat [] = []"
| "replace_all pat (c # cs) =
     (if pat \<noteq> [] \<and> startswith (c # cs) pat
      then replace_all pat (drop (length pat) (c # cs))
      else c # replace_all pat cs)"
  by pat_completeness auto
termination
  by (relation "measure (\<lambda>(pat, s). length s)") auto

text \<open>
  \<^verbatim>\<open>pd.DataFrame(values, index=, columns=, dtype="float32")\<close> raises ValueError when
  the labels do not fit the shape of the values.
\<close>

definition DataFrame :: "matrix \<Rightarrow> string list \<Rightarrow> string list \<Rightarrow> string option \<Rightarrow> error + numframe" where
  "DataFrame vals idx cols cols_name =
     (if nrows vals \<noteq> length idx \<or> n_cols vals \<noteq> length cols then Inl ValueError
      else Inr \<lparr>df_index = idx, df_columns = cols, df_columns_name = cols_name, df_values = vals\<rparr>)"

definition concat_matrix_from_cell2location ::
  "(string \<rightharpoonup> fs_file) \<Rightarrow> anndata \<Rightarrow> string \<Rightarrow> string \<Rightarrow> sample \<Rightarrow> string \<Rightarrow> string option \<Rightarrow>
   error + anndata" where
  "concat_matrix_from_cell2location files adata c2l_file q smp feature_name obs_feature_name =
     (case files c2l_file of
        None \<Rightarrow> Inl OSError
      | Some OtherFile \<Rightarrow> Inl OSError
      | Some (H5ad f) \<Rightarrow>
          (case read_c2l f of
             Inl e \<Rightarrow> Inl e
           | Inr c2l_adata0 \<Rightarrow>
               (case (if truthy smp then filter_sample c2l_adata0 smp else Inr c2l_adata0) of
                  Inl e \<Rightarrow> Inl e
                | Inr c2l_adata \<Rightarrow>
                    (case map_of (obsm c2l_adata) q of
                       None \<Rightarrow> Inl KeyError
                     | Some (Array m) \<Rightarrow> Inl AttributeError
                     | Some (Frame qdf) \<Rightarrow>
                         (case DataFrame (df_values qdf) (index (obs c2l_adata))
                                 (map (replace_all (first_field q @ ''cell_abundance_w_sf_''))
                                    (df_columns qdf))
                                 (df_columns_name qdf) of
                            Inl e \<Rightarrow> Inl e
                          | Inr c2l_df \<Rightarrow>
                              concat_matrices adata (Frame c2l_df) ''celltype''
                                feature_name obs_feature_name)))))"

section \<open>Objects, files and the public functions\<close>

text \<open>
  Datasets are Python objects: a function that is given one can change it, and can
  return the very object it was given. The heap is the list of the dataset objects
  made so far and a reference is a position in it; a new object goes to the end.
  \<^verbatim>\<open>read_anndata(path)\<close> makes a new object from what is stored at the path (the
  readers of the two container formats are not part of the program); a path that
  holds no dataset raises OSError.
\<close>

type_synonym ref = nat

type_synonym heap = "anndata list"

definition deref :: "heap \<Rightarrow> ref \<Rightarrow> anndata option" where
  "deref h r = (if r < length h then Some (h ! r) else None)"

definition new_object :: "heap \<Rightarrow> anndata \<Rightarrow> heap \<times> ref" where
  "new_object h adata = (h @ [adata], length h)"

record env =
  datasets :: "string \<rightharpoonup> anndata"
  files :: "string \<rightharpoonup> fs_file"

definition read_anndata :: "env \<Rightarrow> heap \<Rightarrow> string \<Rightarrow> error + heap \<times> ref" where
  "read_anndata e h path =
     (case datasets e path of
        None \<Rightarrow> Inl OSError
      | Some adata \<Rightarrow> Inr (new_object h adata))"

definition isfile :: "env \<Rightarrow> string \<Rightarrow> bool" where
  "isfile e path = (files e path \<noteq> None)"

text \<open>
  The first argument of \<^verbatim>\<open>reindex_anndata\<close> and \<^verbatim>\<open>concat_features\<close> is a dataset or
  a path. Both functions start alike: the dataset is taken as it is, or read from
  the path, and then the output name defaults to \<^verbatim>\<open>concat-<stem>\<close>.
\<close>

datatype data = Obj ref | Path string

definition resolve_data ::
  "env \<Rightarrow> heap \<Rightarrow> data \<Rightarrow> string option \<Rightarrow> error + heap \<times> ref \<times> string option" where
  "resolve_data e h d out_filename =
     (case d of
        Obj r \<Rightarrow> Inr (h, r, out_filename)
      | Path p \<Rightarrow>
          (case read_anndata e h p of
             Inl err \<Rightarrow> Inl err
           | Inr (h', r) \<Rightarrow> Inr (h', r, Some (py_or out_filename (''concat-'' @ stem p)))))"

text \<open>
  A call ends by returning the dataset (\<^verbatim>\<open>no_save\<close>) or by handing it to
  \<^verbatim>\<open>write_anndata\<close> and returning nothing. \<^verbatim>\<open>write_anndata\<close> passes the dataset to
  \<^verbatim>\<open>h5ad_to_zarr\<close> of \<^verbatim>\<open>process_h5ad\<close>, which is outside this file: the model
  records which object was written under which name, and that
  \<^verbatim>\<open>Path(out_filename)\<close> raises TypeError when no name was given.
\<close>

datatype outcome = Returned ref | Written string ref

definition write_anndata :: "heap \<Rightarrow> ref \<Rightarrow> string option \<Rightarrow> error + heap \<times> outcome" where
  "write_anndata h r out_filename =
     (case out_filename of
        None \<Rightarrow> Inl TypeError
      | Some name \<Rightarrow> Inr (h, Written name r))"

text \<open>\<^verbatim>\<open>reindex_anndata\<close> assigns the new index to \<^verbatim>\<open>adata.obs.index\<close>: the object it
  was given is updated where it is, and it is this object that is returned.\<close>

definition reindex_anndata ::
  "env \<Rightarrow> heap \<Rightarrow> data \<Rightarrow> int \<Rightarrow> bool \<Rightarrow> string option \<Rightarrow> error + heap \<times> outcome" where
  "reindex_anndata e h d offset no_save out_filename =
     (case resolve_data e h d out_filename of
        Inl err \<Rightarrow> Inl err
      | Inr (h1, r, out) \<Rightarrow>
          (case deref h1 r of
             None \<Rightarrow> Inl NoSuchObject
           | Some adata \<Rightarrow>
               (case reindex_index (index (obs adata)) offset of
                  Inl err \<Rightarrow> Inl err
                | Inr idx \<Rightarrow>
                    let h2 = h1[r := adata\<lparr>obs := (obs adata)\<lparr>index := idx\<rparr>\<rparr>]
                    in if no_save then Inr (h2, Returned r)
                       else write_anndata h2 r out)))"

text \<open>
  \<^verbatim>\<open>concat_features\<close>: the form of the address chooses the source. Each source
  builds a new dataset object; an address of no known form leaves \<^verbatim>\<open>adata\<close> bound
  to the object that came in. \<^verbatim>\<open>features.split("/")[1]\<close> is the second field of
  the address.
\<close>

definition second_field :: "string \<Rightarrow> error + string" where
  "second_field s = (case split_on CHR ''/'' s of a # b # rest \<Rightarrow> Inr b | _ \<Rightarrow> Inl IndexError)"

definition q_default :: string where
  "q_default = ''q05_cell_abundance_w_sf''"

text \<open>The \<^verbatim>\<open>if\<close>/\<^verbatim>\<open>elif\<close> chain of \<^verbatim>\<open>concat_features\<close>, which has no \<^verbatim>\<open>else\<close>:
  the new dataset, or \<open>None\<close> when no branch was taken.\<close>

definition dispatch_features :: "env \<Rightarrow> anndata \<Rightarrow> string \<Rightarrow> error + anndata option" where
  "dispatch_features e adata features =
     (if endswith features ''.h5ad'' \<and> isfile e features
      then map_sum id Some
             (concat_matrix_from_cell2location (files e) adata features q_default SNone ''gene'' None)
      else if startswith features ''obs/''
      then (case second_field features of
              Inl err \<Rightarrow> Inl err
            | Inr k \<Rightarrow> map_sum id Some (concat_matrix_from_obs adata k ''gene'' None))
      else if startswith features ''obsm/''
      then (case second_field features of
              Inl err \<Rightarrow> Inl err
            | Inr k \<Rightarrow> map_sum id Some (concat_matrix_from_obsm adata k ''gene'' None))
      else Inr None)"

definition concat_features ::
  "env \<Rightarrow> heap \<Rightarrow> data \<Rightarrow> string \<Rightarrow> bool \<Rightarrow> string option \<Rightarrow> error + heap \<times> outcome" where
  "concat_features e h d features no_save out_filename =
     (case resolve_data e h d out_filename of
        Inl err \<Rightarrow> Inl err
      | Inr (h1, r, out) \<Rightarrow>
          (case deref h1 r of
             None \<Rightarrow> Inl NoSuchObject
           | Some adata \<Rightarrow>
               (case dispatch_features e adata features of
                  Inl err \<Rightarrow> Inl err
                | Inr res \<Rightarrow>
                    let (h2, r2) = (case res of None \<Rightarrow> (h1, r) | Some a \<Rightarrow> new_object h1 a)
                    in if no_save then Inr (h2, Returned r2)
                       else write_anndata h2 r2 out)))"

section \<open>The intersection of features\<close>

text \<open>
  \<^verbatim>\<open>get_feature_intersection\<close> reads the index of \<^verbatim>\<open>var\<close> of the dataset stored at
  each path (through \<^verbatim>\<open>zarr\<close> or \<^verbatim>\<open>h5py\<close>, by the extension; here, from the stored
  dataset) and returns the index of
  \<^verbatim>\<open>pd.concat(var_indices, axis=1, join="inner")\<close>: nothing to concatenate is a
  ValueError; one index is returned as it is; of several, the first is
  intersected with each of the others in turn, which keeps the order of the first,
  and an index with a repeated label cannot be aligned (InvalidIndexError).
\<close>

fun read_var_indices :: "env \<Rightarrow> string list \<Rightarrow> error + string list list" where
  "read_var_indices e [] = Inr []"
| "read_var_indices e (path # paths) =
     (case datasets e path of
        None \<Rightarrow> Inl OSError
      | Some adata \<Rightarrow>
          (case read_var_indices e paths of
             Inl err \<Rightarrow> Inl err
           | Inr var_indices \<Rightarrow> Inr (index (var adata) # var_indices)))"

definition unique :: "string list \<Rightarrow> string list" where
  "unique xs = rev (remdups (rev xs))"

definition intersection :: "string list \<Rightarrow> string list \<Rightarrow> string list" where
  "intersection a b = filter (\<lambda>x. x \<in> set b) (unique a)"

fun concat_inner_index :: "string list list \<Rightarrow> error + string list" where
  "concat_inner_index [] = Inl ValueError"
| "concat_inner_index [i] = Inr i"
| "concat_inner_index (i # j # rest) =
     (if list_ex (\<lambda>x. \<not> distinct x) (i # j # rest) then Inl InvalidIndexError
      else Inr (foldl intersection i (j # rest)))"

definition get_feature_intersection :: "env \<Rightarrow> string list \<Rightarrow> error + string list" where
  "get_feature_intersection e paths =
     (case read_var_indices e paths of
        Inl err \<Rightarrow> Inl err
      | Inr var_indices \<Rightarrow> concat_inner_index var_indices)"

text \<open>
  \<^verbatim>\<open>adata[:, var_intersect]\<close>: anndata looks every name up in the index of \<^verbatim>\<open>var\<close>
  (InvalidIndexError when the index repeats a label, KeyError for a name it does
  not hold) and makes a new dataset of the columns of \<^verbatim>\<open>X\<close> and the rows of
  \<^verbatim>\<open>var\<close> at these positions, in the order of the names.
\<close>

fun index_of :: "string list \<Rightarrow> string \<Rightarrow> nat" where
  "index_of [] x = 0"
| "index_of (y # ys) x = (if x = y then 0 else Suc (index_of ys x))"

definition get_indexer :: "string list \<Rightarrow> string list \<Rightarrow> error + nat list" where
  "get_indexer idx names =
     (if \<not> distinct idx then Inl InvalidIndexError
      else if list_ex (\<lambda>n. n \<notin> set idx) names then Inl KeyError
      else Inr (map (index_of idx) names))"

definition take_at :: "nat list \<Rightarrow> 'a list \<Rightarrow> 'a list" where
  "take_at ps xs = map (\<lambda>p. xs ! p) ps"

fun take_column :: "nat list \<Rightarrow> column \<Rightarrow> column" where
  "take_column ps (BoolCol bs) = BoolCol (take_at ps bs)"
| "take_column ps (OtherCol cs) = OtherCol (take_at ps cs)"

definition select_vars :: "anndata \<Rightarrow> string list \<Rightarrow> error + anndata" where
  "select_vars adata names =
     (case get_indexer (index (var adata)) names of
        Inl err \<Rightarrow> Inl err
      | Inr ps \<Rightarrow>
          Inr (adata
                \<lparr>X := map_option
                        (\<lambda>x. (fst x, \<lparr>n_cols = length ps, rows = map (take_at ps) (rows (snd x))\<rparr>))
                        (X adata),
                 var := \<lparr>index = take_at ps (index (var adata)),
                         columns = map (\<lambda>kc. (fst kc, take_column ps (snd kc)))
                                     (columns (var adata))\<rparr>\<rparr>))"

text \<open>\<^verbatim>\<open>intersect_features\<close>: the intersection, then for each path in turn the
  dataset is read, cut to the intersection and written as \<^verbatim>\<open>intersect-<stem>\<close>.\<close>

fun intersect_loop ::
  "env \<Rightarrow> heap \<Rightarrow> string list \<Rightarrow> string list \<Rightarrow> error + heap \<times> outcome list" where
  "intersect_loop e h var_intersect [] = Inr (h, [])"
| "intersect_loop e h var_intersect (path # paths) =
     (case read_anndata e h path of
        Inl err \<Rightarrow> Inl err
      | Inr (h1, r) \<Rightarrow>
          (case deref h1 r of
             None \<Rightarrow> Inl NoSuchObject
           | Some adata \<Rightarrow>
               (case select_vars adata var_intersect of
                  Inl err \<Rightarrow> Inl err
                | Inr view \<Rightarrow>
                    (case write_anndata (fst (new_object h1 view)) (snd (new_object h1 view))
                            (Some (''intersect-'' @ stem path)) of
                       Inl err \<Rightarrow> Inl err
                     | Inr (h2, w) \<Rightarrow>
                         (case intersect_loop e h2 var_intersect paths of
                            Inl err \<Rightarrow> Inl err
                          | Inr (h3, ws) \<Rightarrow> Inr (h3, w # ws))))))"

definition intersect_features :: "env \<Rightarrow> heap \<Rightarrow> string list \<Rightarrow> error + heap \<times> outcome list" where
  "intersect_features e h paths =
     (case get_feature_intersection e paths of
        Inl err \<Rightarrow> Inl err
      | Inr var_intersect \<Rightarrow> intersect_loop e h var_intersect paths)"

section \<open>Reading the results\<close>


definition shape_X :: "anndata \<Rightarrow> (nat \<times> nat) option" where
  "shape_X adata = map_option (\<lambda>x. (nrows (snd x), n_cols (snd x))) (X adata)"


section \<open>Example data\<close>

text \<open>
  The dataset of the specification's scenario: three observations \<open>0\<close>, \<open>1\<close>, \<open>2\<close>, two
  features, a dense matrix and the categorical column \<open>celltype = [A, B, A]\<close>.
  \<open>ex_big\<close> has one observation, whose identifier is the largest 64-bit integer;
  \<open>ex_bad\<close> has an identifier that is no integer; \<open>ex_over_first\<close> and
  \<open>ex_bad_first\<close> hold such an identifier and an integer of 65 bits, in the two
  orders. No file is needed for them.
\<close>

definition ex_scenario :: anndata where
  "ex_scenario =
     \<lparr>X = Some (Dense, \<lparr>n_cols = 2, rows = [[1, 2], [3, 4], [5, 6]]\<rparr>),
      obs = \<lparr>index = [''0'', ''1'', ''2''],
             columns = [(''celltype'', Categorical [''A'', ''B''] [Some ''A'', Some ''B'', Some ''A''])]\<rparr>,
      var = \<lparr>index = [''g1'', ''g2''], columns = []\<rparr>,
      obsm = [],
      uns = []\<rparr>"

definition ex_big :: anndata where
  "ex_big =
     \<lparr>X = Some (Dense, \<lparr>n_cols = 1, rows = [[7]]\<rparr>),
      obs = \<lparr>index = [''9223372036854775807''], columns = []\<rparr>,
      var = \<lparr>index = [''g1''], columns = []\<rparr>,
      obsm = [],
      uns = []\<rparr>"

definition ex_bad :: anndata where
  "ex_bad =
     \<lparr>X = Some (Dense, \<lparr>n_cols = 1, rows = [[7], [8]]\<rparr>),
      obs = \<lparr>index = [''0'', ''AAACCTG-1''], columns = []\<rparr>,
      var = \<lparr>index = [''g1''], columns = []\<rparr>,
      obsm = [],
      uns = []\<rparr>"

definition ex_over_first :: anndata where
  "ex_over_first = ex_bad\<lparr>obs := \<lparr>index = [''9223372036854775808'', ''AAACCTG-1''], columns = []\<rparr>\<rparr>"

definition ex_bad_first :: anndata where
  "ex_bad_first = ex_bad\<lparr>obs := \<lparr>index = [''AAACCTG-1'', ''9223372036854775808''], columns = []\<rparr>\<rparr>"

definition env_empty :: env where
  "env_empty = \<lparr>datasets = Map.empty, files = Map.empty\<rparr>"

text \<open>Two annotation tables for \<open>ex_scenario\<close>: one of three rows, one of two.\<close>

definition ext_three :: numframe where
  "ext_three =
     \<lparr>df_index = [''0'', ''1'', ''2''], df_columns = [''T'', ''NK''], df_columns_name = None,
      df_values = \<lparr>n_cols = 2, rows = [[1/2, 0], [0, 1], [1/4, 3/4]]\<rparr>\<rparr>"

definition ext_two :: numframe where
  "ext_two =
     \<lparr>df_index = [''0'', ''1''], df_columns = [''T'', ''NK''], df_columns_name = None,
      df_values = \<lparr>n_cols = 2, rows = [[1/2, 0], [0, 1]]\<rparr>\<rparr>"



section \<open>Reindexing\<close>

lemmas eval_int = reindex_index_def add_offset_def in_int64_def wrap64_def py_str_def py_int_def
  strip_def py_isspace_def parse_unsigned_def is_digit_def digits_value_def digit_val_def
  digit_char_def

lemma wrap64_id: "in_int64 v \<Longrightarrow> wrap64 v = v"
  by (simp add: in_int64_def wrap64_def)

lemma astype_int_ok:
  "\<forall>s\<in>set ids. \<exists>v. py_int s = Some v \<and> in_int64 v \<Longrightarrow>
   astype_int ids = Inr (map (\<lambda>s. the (py_int s)) ids)"
  by (induction ids) auto

lemma astype_int_fails:
  "(\<exists>s\<in>set ids. py_int s = None) \<longrightarrow>
   astype_int ids = Inl ValueError \<or> astype_int ids = Inl OverflowError"
  by (induction ids) (auto split: option.splits sum.splits)

lemma astype_int_ValueError:
  "(\<exists>s\<in>set ids. py_int s = None) \<and> (\<forall>s\<in>set ids. \<forall>v. py_int s = Some v \<longrightarrow> in_int64 v) \<longrightarrow>
   astype_int ids = Inl ValueError"
  by (induction ids) (auto split: option.splits sum.splits)

lemma reindex_index_ok:
  assumes "\<forall>s\<in>set ids. \<exists>v. py_int s = Some v \<and> in_int64 v \<and> in_int64 (v + offset)"
    and "in_int64 offset"
  shows "reindex_index ids offset = Inr (map (\<lambda>s. py_str (the (py_int s) + offset)) ids)"
proof -
  have a: "astype_int ids = Inr (map (\<lambda>s. the (py_int s)) ids)"
    using assms(1) by (intro astype_int_ok) blast
  have b: "wrap64 (the (py_int s) + offset) = the (py_int s) + offset" if "s \<in> set ids" for s
    using assms(1) that by (fastforce simp: wrap64_id)
  show ?thesis
    using assms(2) by (simp add: reindex_index_def a add_offset_def b)
qed

lemma reindex_index_fails:
  assumes "\<exists>s\<in>set ids. py_int s = None"
  shows "reindex_index ids offset = Inl ValueError \<or> reindex_index ids offset = Inl OverflowError"
  using astype_int_fails[of ids] assms by (auto simp: reindex_index_def)

lemma reindex_index_ValueError:
  assumes "\<exists>s\<in>set ids. py_int s = None"
    and "\<forall>s\<in>set ids. \<forall>v. py_int s = Some v \<longrightarrow> in_int64 v"
  shows "reindex_index ids offset = Inl ValueError"
  using astype_int_ValueError[of ids] assms by (simp add: reindex_index_def)

lemma astype_int_first_bad:
  assumes "\<forall>t\<in>set pre. \<exists>v. py_int t = Some v \<and> in_int64 v"
  shows "(py_int s = None \<longrightarrow> astype_int (pre @ s # post) = Inl ValueError) \<and>
         ((\<exists>v. py_int s = Some v \<and> \<not> in_int64 v) \<longrightarrow> astype_int (pre @ s # post) = Inl OverflowError)"
  using assms by (induction pre) auto

lemma reindex_index_first_bad:
  assumes "\<forall>t\<in>set pre. \<exists>v. py_int t = Some v \<and> in_int64 v"
  shows "(py_int s = None \<longrightarrow> reindex_index (pre @ s # post) offset = Inl ValueError) \<and>
         ((\<exists>v. py_int s = Some v \<and> \<not> in_int64 v) \<longrightarrow>
            reindex_index (pre @ s # post) offset = Inl OverflowError)"
  using astype_int_first_bad[OF assms, of s post] by (auto simp: reindex_index_def)

text \<open>
  Claim C6, as the code has it. Let \<open>adata\<close> be the dataset object that
  \<^verbatim>\<open>reindex_anndata\<close> is given. If every observation identifier reads as an integer
  that fits in 64 bits, the offset fits in 64 bits and so does every shifted
  identifier, the call returns the same object, whose \<^verbatim>\<open>obs\<close> index now holds
  \<^verbatim>\<open>str(int(id) + offset)\<close> row by row, in the same order, and nothing else of the
  dataset has changed. If some identifier does not read as an integer the call
  fails, whether or not it was to save. Which error it raises is decided by the
  first identifier, in row order, that is not an integer of 64 bits: ValueError
  when that identifier does not read as an integer, OverflowError when it reads
  as an integer outside the 64-bit range.
\<close>

theorem reindex_anndata_shifts:
  assumes "deref h r = Some adata"
  shows "((\<forall>s\<in>set (index (obs adata)). \<exists>v. py_int s = Some v \<and> in_int64 v \<and> in_int64 (v + offset))
            \<and> in_int64 offset \<longrightarrow>
          reindex_anndata e h (Obj r) offset True out =
            Inr (h[r := adata\<lparr>obs := (obs adata)
                   \<lparr>index := map (\<lambda>s. py_str (the (py_int s) + offset)) (index (obs adata))\<rparr>\<rparr>],
                 Returned r))
       \<and> ((\<exists>s\<in>set (index (obs adata)). py_int s = None) \<longrightarrow>
            (reindex_anndata e h (Obj r) offset no_save out = Inl ValueError \<or>
             reindex_anndata e h (Obj r) offset no_save out = Inl OverflowError) \<and>
            ((\<forall>s\<in>set (index (obs adata)). \<forall>v. py_int s = Some v \<longrightarrow> in_int64 v) \<longrightarrow>
             reindex_anndata e h (Obj r) offset no_save out = Inl ValueError))
       \<and> (\<forall>pre s post.
            index (obs adata) = pre @ s # post \<and>
            (\<forall>t\<in>set pre. \<exists>v. py_int t = Some v \<and> in_int64 v) \<longrightarrow>
            (py_int s = None \<longrightarrow>
               reindex_anndata e h (Obj r) offset no_save out = Inl ValueError) \<and>
            ((\<exists>v. py_int s = Some v \<and> \<not> in_int64 v) \<longrightarrow>
               reindex_anndata e h (Obj r) offset no_save out = Inl OverflowError))"
proof (intro conjI impI allI)
  assume "(\<forall>s\<in>set (index (obs adata)). \<exists>v. py_int s = Some v \<and> in_int64 v \<and> in_int64 (v + offset))
            \<and> in_int64 offset"
  then have "reindex_index (index (obs adata)) offset =
      Inr (map (\<lambda>s. py_str (the (py_int s) + offset)) (index (obs adata)))"
    by (intro reindex_index_ok) auto
  then show "reindex_anndata e h (Obj r) offset True out =
            Inr (h[r := adata\<lparr>obs := (obs adata)
                   \<lparr>index := map (\<lambda>s. py_str (the (py_int s) + offset)) (index (obs adata))\<rparr>\<rparr>],
                 Returned r)"
    using assms by (simp add: reindex_anndata_def resolve_data_def)
next
  assume bad: "\<exists>s\<in>set (index (obs adata)). py_int s = None"
  show "reindex_anndata e h (Obj r) offset no_save out = Inl ValueError \<or>
        reindex_anndata e h (Obj r) offset no_save out = Inl OverflowError"
    using reindex_index_fails[OF bad, of offset] assms
    by (auto simp: reindex_anndata_def resolve_data_def)
  assume "\<forall>s\<in>set (index (obs adata)). \<forall>v. py_int s = Some v \<longrightarrow> in_int64 v"
  from reindex_index_ValueError[OF bad this, of offset]
  show "reindex_anndata e h (Obj r) offset no_save out = Inl ValueError"
    using assms by (simp add: reindex_anndata_def resolve_data_def)
next
  fix pre s post
  assume a: "index (obs adata) = pre @ s # post \<and>
            (\<forall>t\<in>set pre. \<exists>v. py_int t = Some v \<and> in_int64 v)"
  then have p: "\<forall>t\<in>set pre. \<exists>v. py_int t = Some v \<and> in_int64 v" by blast
  note fb = reindex_index_first_bad[OF p, of s post offset]
  {
    assume "py_int s = None"
    with fb a have "reindex_index (index (obs adata)) offset = Inl ValueError" by simp
    then show "reindex_anndata e h (Obj r) offset no_save out = Inl ValueError"
      using assms by (simp add: reindex_anndata_def resolve_data_def)
  }
  {
    assume "\<exists>v. py_int s = Some v \<and> \<not> in_int64 v"
    with fb a have "reindex_index (index (obs adata)) offset = Inl OverflowError" by simp
    then show "reindex_anndata e h (Obj r) offset no_save out = Inl OverflowError"
      using assms by (simp add: reindex_anndata_def resolve_data_def)
  }
qed

text \<open>
  The first part at the scenario of the specification (offset 1000 on the
  identifiers \<open>0\<close>, \<open>1\<close>, \<open>2\<close>), the second at a dataset with a barcode for an
  identifier, the third at two datasets that hold a barcode and an integer of
  65 bits, in either order.
\<close>

theorem reindex_anndata_shifts_witness:
  "reindex_anndata env_empty [ex_scenario] (Obj 0) 1000 True None =
     Inr ([ex_scenario\<lparr>obs := (obs ex_scenario)\<lparr>index := [''1000'', ''1001'', ''1002'']\<rparr>\<rparr>], Returned 0)
   \<and> reindex_anndata env_empty [ex_bad] (Obj 0) 1000 False (Some ''out'') = Inl ValueError
   \<and> index (obs ex_over_first) = [''9223372036854775808'', ''AAACCTG-1'']
   \<and> reindex_anndata env_empty [ex_over_first] (Obj 0) 0 True None = Inl OverflowError
   \<and> index (obs ex_bad_first) = [''AAACCTG-1'', ''9223372036854775808'']
   \<and> reindex_anndata env_empty [ex_bad_first] (Obj 0) 0 True None = Inl ValueError"
proof -
  have d: "deref [ex_scenario] 0 = Some ex_scenario" "deref [ex_bad] 0 = Some ex_bad"
    "deref [ex_over_first] 0 = Some ex_over_first" "deref [ex_bad_first] 0 = Some ex_bad_first"
    by (simp_all add: deref_def)
  have i: "index (obs ex_scenario) = [''0'', ''1'', ''2'']" "index (obs ex_bad) = [''0'', ''AAACCTG-1'']"
    "index (obs ex_over_first) = [''9223372036854775808'', ''AAACCTG-1'']"
    "index (obs ex_bad_first) = [''AAACCTG-1'', ''9223372036854775808'']"
    by (simp_all add: ex_scenario_def ex_bad_def ex_over_first_def ex_bad_first_def)
  have p: "py_int ''0'' = Some 0" "py_int ''1'' = Some 1" "py_int ''2'' = Some 2"
    "py_int ''AAACCTG-1'' = None" "py_int ''9223372036854775808'' = Some 9223372036854775808"
    by (simp_all add: eval_int)
  have s: "py_str 1000 = ''1000''" "py_str 1001 = ''1001''" "py_str 1002 = ''1002''"
    by (simp_all add: eval_int)
  from reindex_anndata_shifts[OF d(1), where offset = 1000 and e = env_empty and out = None]
  have a: "reindex_anndata env_empty [ex_scenario] (Obj 0) 1000 True None =
     Inr ([ex_scenario\<lparr>obs := (obs ex_scenario)\<lparr>index := [''1000'', ''1001'', ''1002'']\<rparr>\<rparr>], Returned 0)"
    by (simp add: i p s in_int64_def)
  from reindex_anndata_shifts[OF d(2), where offset = 1000 and e = env_empty and no_save = False
      and out = "Some ''out''"]
  have b: "reindex_anndata env_empty [ex_bad] (Obj 0) 1000 False (Some ''out'') = Inl ValueError"
    by (simp add: i p in_int64_def)
  note bad = reindex_anndata_shifts[THEN conjunct2, THEN conjunct2, rule_format]
  from bad[OF d(3), where pre = "[]" and s = "''9223372036854775808''" and post = "[''AAACCTG-1'']"
      and offset = 0 and e = env_empty and no_save = True and out = None]
  have c: "reindex_anndata env_empty [ex_over_first] (Obj 0) 0 True None = Inl OverflowError"
    by (simp add: i p in_int64_def)
  from bad[OF d(4), where pre = "[]" and s = "''AAACCTG-1''" and post = "[''9223372036854775808'']"
      and offset = 0 and e = env_empty and no_save = True and out = None]
  have e: "reindex_anndata env_empty [ex_bad_first] (Obj 0) 0 True None = Inl ValueError"
    by (simp add: i p)
  from a b c e i show ?thesis by simp
qed

text \<open>
  Claim C6 as the specification states it, for every identifier that reads as an
  integer and every offset, fails where 64 bits end: the identifier
  \<open>9223372036854775807\<close> reads as that integer, and with offset 1 the new
  identifier is \<open>-9223372036854775808\<close>, while \<^verbatim>\<open>str(int(id) + 1)\<close> is
  \<open>9223372036854775808\<close>.
\<close>

theorem reindex_anndata_wraps:
  "py_int ''9223372036854775807'' = Some 9223372036854775807
   \<and> reindex_anndata env_empty [ex_big] (Obj 0) 1 True None =
       Inr ([ex_big\<lparr>obs := (obs ex_big)\<lparr>index := [''-9223372036854775808'']\<rparr>\<rparr>], Returned 0)
   \<and> py_str (9223372036854775807 + 1) = ''9223372036854775808''"
  by (simp add: reindex_anndata_def resolve_data_def deref_def ex_big_def eval_int)

section \<open>The assertion of \<^verbatim>\<open>concat_matrices\<close>\<close>

lemma fillna_columns_error: "fillna_columns t ns = Inl err \<Longrightarrow> err = KeyError"
  by (induction ns arbitrary: t) (auto simp: fillna_column_def split: option.splits sum.splits)

lemma concat_matrices_error:
  assumes "concat_matrices adata ext_df obs_key feature_name obs_feature_name = Inl err"
    and "n_obs adata = shape0 ext_df"
  shows "err = AttributeError \<or> err = ValueError \<or> err = KeyError"
  using assms
  by (auto simp: concat_matrices_def Let_def hstack_def new_features_frame_def AnnData_def
      simp del: fillna_columns.simps
      split: annot.splits option.splits sum.splits prod.splits if_splits
      dest: fillna_columns_error)

text \<open>
  Claim C5. When the number of rows of the annotation table differs from the
  number of observations of the dataset, \<^verbatim>\<open>concat_matrices\<close> fails with the
  AssertionError of its first line (the specification's ShapeMismatchError) and
  returns no dataset; when the two numbers are equal, whatever else happens, the
  result is not this error.
\<close>

theorem concat_matrices_assertion:
  "(n_obs adata \<noteq> shape0 ext_df \<longrightarrow>
      concat_matrices adata ext_df obs_key feature_name obs_feature_name = Inl AssertionError)
   \<and> (n_obs adata = shape0 ext_df \<longrightarrow>
      concat_matrices adata ext_df obs_key feature_name obs_feature_name \<noteq> Inl AssertionError)"
proof (intro conjI impI)
  assume "n_obs adata \<noteq> shape0 ext_df"
  then show "concat_matrices adata ext_df obs_key feature_name obs_feature_name = Inl AssertionError"
    by (simp add: concat_matrices_def)
next
  assume "n_obs adata = shape0 ext_df"
  then show "concat_matrices adata ext_df obs_key feature_name obs_feature_name \<noteq> Inl AssertionError"
    using concat_matrices_error[of adata ext_df obs_key feature_name obs_feature_name AssertionError]
    by auto
qed

text \<open>The scenario's dataset has three observations: a table of two rows is
  refused, a table of three rows is not.\<close>

theorem concat_matrices_assertion_witness:
  "n_obs ex_scenario \<noteq> shape0 (Frame ext_two)
   \<and> concat_matrices ex_scenario (Frame ext_two) ''celltype'' ''gene'' None = Inl AssertionError
   \<and> n_obs ex_scenario = shape0 (Frame ext_three)
   \<and> concat_matrices ex_scenario (Frame ext_three) ''celltype'' ''gene'' None \<noteq> Inl AssertionError"
  using concat_matrices_assertion[of ex_scenario "Frame ext_two" "''celltype''" "''gene''" None]
    concat_matrices_assertion[of ex_scenario "Frame ext_three" "''celltype''" "''gene''" None]
  by (simp add: n_obs_def ex_scenario_def ext_two_def ext_three_def)

section \<open>Columns of the stacked table\<close>
















section \<open>What a successful \<^verbatim>\<open>concat_matrices\<close> has computed\<close>

lemma hstack_shape:
  assumes "hstack a b = Inr x"
  shows "nrows x = nrows a \<and> nrows a = nrows b \<and> n_cols x = n_cols a + n_cols b"
  using assms by (auto simp: hstack_def nrows_def split: if_splits)

lemma hstack_wf:
  assumes "hstack a b = Inr x" "wf_matrix a" "wf_matrix b"
  shows "wf_matrix x"
proof -
  from assms(1) have x: "x = \<lparr>n_cols = n_cols a + n_cols b, rows = map2 (@) (rows a) (rows b)\<rparr>"
    by (auto simp: hstack_def split: if_splits)
  have "length r = n_cols a + n_cols b" if "r \<in> set (map2 (@) (rows a) (rows b))" for r
  proof -
    from that obtain p q where pq: "(p, q) \<in> set (zip (rows a) (rows b))" and r: "r = p @ q"
      by auto
    from pq have "p \<in> set (rows a)" "q \<in> set (rows b)"
      by (auto dest: set_zip_leftD set_zip_rightD)
    with assms(2,3) r show ?thesis by (simp add: wf_matrix_def list_all_iff)
  qed
  then show ?thesis by (simp add: x wf_matrix_def list_all_iff)
qed









section \<open>Which source an address reaches\<close>








section \<open>The scenario and the address of no known form\<close>

lemmas eval_concat = concat_features_def resolve_data_def deref_def dispatch_features_def
  endswith_def startswith_def isfile_def env_empty_def second_field_def
  concat_matrix_from_obs_def concat_matrix_from_obsm_def get_dummies_def concat_matrices_def
  n_obs_def py_or_def flag_name_def hstack_def nrows_def hstack_storage_def new_features_frame_def
  assign_True_def set_column_def pd_concat_def AnnData_def bool_var_keys_def fillna_column_def
  new_object_def Let_def

text \<open>
  Claim C1. On the scenario's dataset (three observations, two features, the dense
  matrix \<open>[[1,2],[3,4],[5,6]]\<close>, the categorical column \<open>celltype = [A, B, A]\<close>),
  \<^verbatim>\<open>concat_features\<close> with the address \<open>obs/celltype\<close> returns a new dataset whose
  matrix is the dense 3 by 4 matrix \<open>[[1,2,1,0],[3,4,0,1],[5,6,1,0]]\<close>, the two
  original columns first and then one indicator column for \<open>A\<close> and one for \<open>B\<close>,
  and whose \<^verbatim>\<open>var\<close> has the flags \<open>is_gene = [T,T,F,F]\<close> and
  \<open>is_celltype = [F,F,T,T]\<close>.
\<close>

theorem concat_features_scenario:
  "concat_features env_empty [ex_scenario] (Obj 0) ''obs/celltype'' True None =
     Inr ([ex_scenario,
           \<lparr>X = Some (Dense, \<lparr>n_cols = 4, rows = [[1, 2, 1, 0], [3, 4, 0, 1], [5, 6, 1, 0]]\<rparr>),
            obs = obs ex_scenario,
            var = \<lparr>index = [''g1'', ''g2'', ''A'', ''B''],
                   columns = [(''is_gene'', BoolCol [True, True, False, False]),
                              (''is_celltype'', BoolCol [False, False, True, True])]\<rparr>,
            obsm = [],
            uns = []\<rparr>],
          Returned 1)"
  by (simp add: eval_concat ex_scenario_def)

text \<open>
  Claim C4. When the address does not end in \<open>.h5ad\<close> as the path of an existing
  file, does not start with \<open>obs/\<close> and does not start with \<open>obsm/\<close>,
  \<^verbatim>\<open>concat_features\<close> raises nothing and returns the dataset it was given: the
  same object, in a heap that has not changed; given a path, the dataset as it
  was read.
\<close>

theorem concat_features_unknown_address:
  assumes "\<not> (endswith features ''.h5ad'' \<and> isfile e features)"
    and "\<not> startswith features ''obs/''"
    and "\<not> startswith features ''obsm/''"
  shows "(deref h r = Some adata \<longrightarrow>
            concat_features e h (Obj r) features True out_filename = Inr (h, Returned r))
       \<and> (datasets e path = Some adata \<longrightarrow>
            concat_features e h (Path path) features True out_filename =
              Inr (h @ [adata], Returned (length h)))"
  using assms
  by (auto simp: concat_features_def resolve_data_def dispatch_features_def read_anndata_def
      new_object_def deref_def)

text \<open>Two such addresses on the scenario's dataset: a bare column name, and the
  name of a companion file that does not exist.\<close>

theorem concat_features_unknown_address_witness:
  "\<not> (endswith ''celltype'' ''.h5ad'' \<and> isfile env_empty ''celltype'')
   \<and> \<not> startswith ''celltype'' ''obs/'' \<and> \<not> startswith ''celltype'' ''obsm/''
   \<and> deref [ex_scenario] 0 = Some ex_scenario
   \<and> concat_features env_empty [ex_scenario] (Obj 0) ''celltype'' True None =
       Inr ([ex_scenario], Returned 0)
   \<and> \<not> (endswith ''results.h5ad'' ''.h5ad'' \<and> isfile env_empty ''results.h5ad'')
   \<and> concat_features env_empty [ex_scenario] (Obj 0) ''results.h5ad'' True None =
       Inr ([ex_scenario], Returned 0)"
proof -
  have a: "\<not> (endswith ''celltype'' ''.h5ad'' \<and> isfile env_empty ''celltype'')"
    "\<not> startswith ''celltype'' ''obs/''" "\<not> startswith ''celltype'' ''obsm/''"
    by (simp_all add: endswith_def startswith_def)
  have b: "\<not> (endswith ''results.h5ad'' ''.h5ad'' \<and> isfile env_empty ''results.h5ad'')"
    "\<not> startswith ''results.h5ad'' ''obs/''" "\<not> startswith ''results.h5ad'' ''obsm/''"
    by (simp_all add: isfile_def env_empty_def startswith_def)
  have d: "deref [ex_scenario] 0 = Some ex_scenario"
    by (simp add: deref_def)
  from concat_features_unknown_address[OF a, where h = "[ex_scenario]" and r = 0 and adata = ex_scenario
      and out_filename = None]
    concat_features_unknown_address[OF b, where h = "[ex_scenario]" and r = 0 and adata = ex_scenario
      and out_filename = None]
    a b d
  show ?thesis by simp
qed

section \<open>The flags of provenance\<close>





end
